theory Spec2Isabelle
  imports Complex_Main
begin

section \<open>Cell values and the Python operations the scripts apply to them\<close>

text \<open>
  The two scripts \<^verbatim>\<open>extract-sbti-pathways.py\<close> (called the first script below) and
  \<^verbatim>\<open>extract-sbti-pathways-v2.py\<close> (the second script, suffix \<open>_v2\<close>) read the
  \<^verbatim>\<open>Database\<close> sheet of a workbook with openpyxl and turn it into SQL statements.

  A cell's \<^verbatim>\<open>.value\<close> is \<^verbatim>\<open>None\<close>, a \<^verbatim>\<open>str\<close>, an \<^verbatim>\<open>int\<close>, a \<^verbatim>\<open>float\<close> or a
  \<^verbatim>\<open>bool\<close>; cells holding dates are left out of the model. Floats are modelled by the
  real number they denote (a spreadsheet cell holds no NaN and no infinity); strings are
  lists of characters with code points below 256.
\<close>

datatype cell = CNone | CStr string | CInt int | CFloat real | CBool bool

text \<open>Python truth value, as used by \<^verbatim>\<open>x or y\<close>, \<^verbatim>\<open>not x\<close> and \<^verbatim>\<open>if x\<close>.\<close>

fun truthy :: "cell \<Rightarrow> bool" where
  "truthy CNone = False"
| "truthy (CStr s) = (s \<noteq> [])"
| "truthy (CInt n) = (n \<noteq> 0)"
| "truthy (CFloat x) = (x \<noteq> 0)"
| "truthy (CBool b) = b"

text \<open>\<^verbatim>\<open>isinstance(v, str)\<close>.\<close>

fun isinstance_str :: "cell \<Rightarrow> bool" where
  "isinstance_str (CStr s) = True"
| "isinstance_str v = False"

text \<open>\<^verbatim>\<open>isinstance(v, (int, float))\<close>: \<^verbatim>\<open>bool\<close> is a subclass of \<^verbatim>\<open>int\<close>.\<close>

fun isinstance_int_float :: "cell \<Rightarrow> bool" where
  "isinstance_int_float (CInt n) = True"
| "isinstance_int_float (CFloat x) = True"
| "isinstance_int_float (CBool b) = True"
| "isinstance_int_float v = False"

text \<open>\<^verbatim>\<open>v != 0\<close>: \<^verbatim>\<open>None\<close> and strings differ from 0; \<^verbatim>\<open>False == 0\<close> and \<^verbatim>\<open>True == 1\<close>.\<close>

fun ne_zero :: "cell \<Rightarrow> bool" where
  "ne_zero CNone = True"
| "ne_zero (CStr s) = True"
| "ne_zero (CInt n) = (n \<noteq> 0)"
| "ne_zero (CFloat x) = (x \<noteq> 0)"
| "ne_zero (CBool b) = b"

text \<open>The number a numeric cell compares as (\<^verbatim>\<open>True\<close> is 1, \<^verbatim>\<open>False\<close> is 0).\<close>

fun num_value :: "cell \<Rightarrow> real option" where
  "num_value (CInt n) = Some (of_int n)"
| "num_value (CFloat x) = Some x"
| "num_value (CBool b) = Some (if b then 1 else 0)"
| "num_value v = None"

text \<open>\<^verbatim>\<open>int(x)\<close> on a number truncates towards zero.\<close>

definition int_of_number :: "real \<Rightarrow> int" where
  "int_of_number x = (if 0 \<le> x then \<lfloor>x\<rfloor> else \<lceil>x\<rceil>)"

subsection \<open>\<^verbatim>\<open>int(s)\<close> on a string\<close>

text \<open>
  \<^verbatim>\<open>int(s)\<close> strips whitespace at both ends (the characters 9 to 13 and 32, and of the
  characters from 128 on, 133 and 160; the separators 28 to 31 are not stripped), reads an
  optional sign, and then needs a non-empty run of decimal digits in which single
  underscores may stand between two digits; anything else raises \<^verbatim>\<open>ValueError\<close>, here
  \<open>None\<close>. So does a string with more than 4300 digits, leading zeros counted
  (\<^verbatim>\<open>sys.int_info.default_max_str_digits\<close>, which the scripts do not change). A
  string is a list of characters below 256, among which the decimal digits are 0 to 9.
\<close>

definition is_space :: "char \<Rightarrow> bool" where
  "is_space c =
     (let n = (of_char c :: nat)
      in (9 \<le> n \<and> n \<le> 13) \<or> n = 32 \<or> n = 133 \<or> n = 160)"

definition is_digit :: "char \<Rightarrow> bool" where
  "is_digit c = (let n = (of_char c :: nat) in 48 \<le> n \<and> n \<le> 57)"

definition digit_value :: "char \<Rightarrow> nat" where
  "digit_value c = (of_char c :: nat) - 48"

fun digits_acc :: "nat \<Rightarrow> string \<Rightarrow> nat option" where
  "digits_acc acc [] = Some acc"
| "digits_acc acc (c # cs) =
     (if c = CHR ''_'' then
        (case cs of
           [] \<Rightarrow> None
         | d # ds \<Rightarrow> if is_digit d then digits_acc (acc * 10 + digit_value d) ds else None)
      else if is_digit c then digits_acc (acc * 10 + digit_value c) cs
      else None)"

definition max_str_digits :: nat where
  "max_str_digits = 4300"

definition parse_digits :: "string \<Rightarrow> nat option" where
  "parse_digits s =
     (case s of
        [] \<Rightarrow> None
      | c # cs \<Rightarrow>
          if length (filter is_digit s) > max_str_digits then None
          else if is_digit c then digits_acc (digit_value c) cs
          else None)"

definition strip :: "string \<Rightarrow> string" where
  "strip s = rev (dropWhile is_space (rev (dropWhile is_space s)))"

definition int_of_str :: "string \<Rightarrow> int option" where
  "int_of_str s =
     (case strip s of
        [] \<Rightarrow> None
      | c # cs \<Rightarrow>
          if c = CHR ''-'' then map_option (\<lambda>n. - int n) (parse_digits cs)
          else if c = CHR ''+'' then map_option int (parse_digits cs)
          else map_option int (parse_digits (c # cs)))"

section \<open>The worksheet\<close>

text \<open>
  A worksheet is the grid of its cell values, row by row; rows may have different
  lengths. \<^verbatim>\<open>ws.cell(r, c).value\<close> (1-based) is \<^verbatim>\<open>None\<close> for a cell the file does
  not hold. openpyxl's \<^verbatim>\<open>max_row\<close> and \<^verbatim>\<open>max_column\<close> are at least 1, and
  \<^verbatim>\<open>ws[r]\<close> is the tuple of the cells of row \<open>r\<close> in columns 1 to \<^verbatim>\<open>max_column\<close>.
\<close>

type_synonym worksheet = "cell list list"

definition max_row :: "worksheet \<Rightarrow> nat" where
  "max_row ws = max 1 (length ws)"

definition max_column :: "worksheet \<Rightarrow> nat" where
  "max_column ws = max 1 (fold max (map length ws) 0)"

definition cell_value :: "worksheet \<Rightarrow> nat \<Rightarrow> nat \<Rightarrow> cell" where
  "cell_value ws r c =
     (if 1 \<le> r \<and> r \<le> length ws then
        (let row = ws ! (r - 1) in if 1 \<le> c \<and> c \<le> length row then row ! (c - 1) else CNone)
      else CNone)"

definition ws_row :: "worksheet \<Rightarrow> nat \<Rightarrow> cell list" where
  "ws_row ws r = map (cell_value ws r) [1 ..< Suc (max_column ws)]"

section \<open>Finding the year columns\<close>

text \<open>
  Second script, lines 47 to 56: columns 9 to \<^verbatim>\<open>max_column\<close> of row 1; a header that
  is a non-empty string and that \<^verbatim>\<open>int\<close> reads as a year from 2014 to 2050 gives the
  pair of the (1-based) column and the year. A \<^verbatim>\<open>ValueError\<close> is caught.
\<close>

definition header_year_v2 :: "cell \<Rightarrow> int option" where
  "header_year_v2 header =
     (if truthy header \<and> isinstance_str header then
        (case header of
           CStr s \<Rightarrow>
             (case int_of_str s of
                None \<Rightarrow> None
              | Some year \<Rightarrow> if 2014 \<le> year \<and> year \<le> 2050 then Some year else None)
         | _ \<Rightarrow> None)
      else None)"

definition year_columns_v2 :: "worksheet \<Rightarrow> (nat \<times> int) list" where
  "year_columns_v2 ws =
     List.map_filter
       (\<lambda>col_idx. map_option (\<lambda>year. (col_idx, year)) (header_year_v2 (cell_value ws 1 col_idx)))
       [9 ..< Suc (max_column ws)]"

text \<open>
  First script, lines 26 to 36: every cell of \<^verbatim>\<open>ws[1]\<close>, numbered from 0; a header
  that is an \<^verbatim>\<open>int\<close> or a \<^verbatim>\<open>float\<close> with \<^verbatim>\<open>2014 <= header <= 2050\<close> gives the pair of
  the (0-based) index and \<^verbatim>\<open>int(header)\<close>.
\<close>

definition header_year_v1 :: "cell \<Rightarrow> int option" where
  "header_year_v1 header =
     (if isinstance_int_float header then
        (case num_value header of
           None \<Rightarrow> None
         | Some x \<Rightarrow> if 2014 \<le> x \<and> x \<le> 2050 then Some (int_of_number x) else None)
      else None)"

definition headers :: "worksheet \<Rightarrow> cell list" where
  "headers ws = ws_row ws 1"

definition year_columns_v1 :: "worksheet \<Rightarrow> (nat \<times> int) list" where
  "year_columns_v1 ws =
     List.map_filter
       (\<lambda>(i, header). map_option (\<lambda>year. (i, year)) (header_year_v1 header))
       (enumerate 0 (headers ws))"

text \<open>
  For comparison with the two scanners, the notion of the spec: a header cell resolves to a
  year when it is a string that reads as an integer or a number, with a value within the
  range 2014 to 2050; a number resolves to its integer part. This definition follows the
  words of the spec and of no script.
\<close>

definition spec_resolves_year :: "cell \<Rightarrow> int option" where
  "spec_resolves_year header =
     (case header of
        CStr s \<Rightarrow>
          (case int_of_str s of
             None \<Rightarrow> None
           | Some year \<Rightarrow> if 2014 \<le> year \<and> year \<le> 2050 then Some year else None)
      | CInt n \<Rightarrow> if 2014 \<le> n \<and> n \<le> 2050 then Some n else None
      | CFloat x \<Rightarrow> if 2014 \<le> x \<and> x \<le> 2050 then Some (int_of_number x) else None
      | _ \<Rightarrow> None)"

section \<open>The category mappings\<close>

text \<open>
  The dictionaries of both scripts have string keys and string values and no key twice;
  they are association lists. \<^verbatim>\<open>d.get(k, default)\<close> finds only a key equal to \<open>k\<close>,
  so a \<open>k\<close> that is not a string finds nothing.
\<close>

type_synonym dict = "(string \<times> string) list"

definition dict_get :: "dict \<Rightarrow> cell \<Rightarrow> cell \<Rightarrow> cell" where
  "dict_get d k dflt =
     (case k of
        CStr s \<Rightarrow> (case map_of d s of Some v \<Rightarrow> CStr v | None \<Rightarrow> dflt)
      | _ \<Rightarrow> dflt)"

definition dict_values :: "dict \<Rightarrow> cell list" where
  "dict_values d = map (\<lambda>kv. CStr (snd kv)) d"

definition dict_keys :: "dict \<Rightarrow> cell list" where
  "dict_keys d = map (\<lambda>kv. CStr (fst kv)) d"

definition sector_map_v2 :: dict where
  "sector_map_v2 =
     [(''Iron and steel'', ''iron_steel''),
      (''Cement'', ''cement''),
      (''Aluminium'', ''aluminum''),
      (''Aluminum'', ''aluminum''),
      (''Pulp and paper'', ''pulp_paper''),
      (''Other industry'', ''cross_sector''),
      (''Services - Buildings'', ''buildings''),
      (''Residential Buildings'', ''buildings''),
      (''Power'', ''power_generation''),
      (''Power generation'', ''power_generation''),
      (''Transport'', ''transport''),
      (''Primary energy demand and industry'', ''cross_sector'')]"

definition scenario_map_v2 :: dict where
  "scenario_map_v2 =
     [(''ETP B2DS'', ''ETP_B2DS''),
      (''SBTi 1.5C'', ''SBTi_1.5C''),
      (''NZE2021'', ''NZE2021'')]"

definition sector_map_v1 :: dict where
  "sector_map_v1 =
     [(''Iron and steel'', ''iron_steel''),
      (''Cement'', ''cement''),
      (''Aluminium'', ''aluminum''),
      (''Pulp and paper'', ''pulp_paper''),
      (''Other industry'', ''cross_sector''),
      (''Services - Buildings'', ''buildings''),
      (''Power'', ''power_generation''),
      (''Power generation'', ''power_generation'')]"

definition scenario_map_v1 :: dict where
  "scenario_map_v1 =
     [(''ETP B2DS'', ''ETP_B2DS''),
      (''SBTi 1.5C'', ''SBTi_1.5C''),
      (''NZE2021'', ''NZE2021'')]"

section \<open>The statements\<close>

text \<open>
  The scripts build each statement as text with an f-string. The model keeps the
  statement that text denotes: the row of the \<^verbatim>\<open>VALUES\<close> clause, with the Python
  value interpolated at each place, and the columns of the \<^verbatim>\<open>ON CONFLICT (...) DO
  NOTHING\<close> clause when the text has one. The other statements of the written files
  are the \<^verbatim>\<open>DELETE ... WHERE data_source LIKE '%IEA%'\<close> of the second script and the
  \<^verbatim>\<open>ALTER TABLE\<close> and \<^verbatim>\<open>SELECT\<close> lines, which change no row.
\<close>

record pathway_row =
  scenario :: cell
  sector :: cell
  region :: cell
  metric_type :: cell
  unit :: cell
  year :: int
  val :: cell
  data_source :: string

datatype sql_statement =
    Insert_stmt pathway_row "string list option"
  | Delete_like string
  | Other_stmt string

definition conflict_columns :: "string list" where
  "conflict_columns = [''scenario'', ''sector'', ''region'', ''metric_type'', ''unit'', ''year'']"

text \<open>
  Both scripts, the test on a year cell:
  \<^verbatim>\<open>value is not None and isinstance(value, (int, float)) and value != 0\<close>.
\<close>

definition emits :: "cell \<Rightarrow> bool" where
  "emits v = (v \<noteq> CNone \<and> isinstance_int_float v \<and> ne_zero v)"

text \<open>
  For comparison with that test, the notion of the spec: a value is numeric when it is a
  number, an integer or a float; a boolean is not. This definition follows the words of the
  spec and of no script.
\<close>

fun spec_numeric :: "cell \<Rightarrow> bool" where
  "spec_numeric (CInt n) = True"
| "spec_numeric (CFloat x) = True"
| "spec_numeric v = False"

section \<open>The second script\<close>

text \<open>Line 68: \<^verbatim>\<open>ws.cell(row_idx, 4).value or 'World'\<close>.\<close>

definition region_v2 :: "cell \<Rightarrow> cell" where
  "region_v2 v = (if truthy v then v else CStr ''World'')"

text \<open>Lines 78 to 83.\<close>

definition metric_type_v2 :: "cell \<Rightarrow> cell" where
  "metric_type_v2 metric_type_raw =
     (if metric_type_raw = CStr ''Emissions'' then CStr ''Emissions''
      else if metric_type_raw \<in> set [CStr ''Electricity'', CStr ''Activity''] then CStr ''Activity''
      else metric_type_raw)"

text \<open>Lines 102 to 106.\<close>

definition sql_v2 :: "cell \<Rightarrow> cell \<Rightarrow> cell \<Rightarrow> cell \<Rightarrow> cell \<Rightarrow> int \<Rightarrow> cell \<Rightarrow> sql_statement" where
  "sql_v2 scenario' sector' region' metric_type' unit' year' value' =
     Insert_stmt
       \<lparr>scenario = scenario', sector = sector', region = region', metric_type = metric_type',
        unit = unit', year = year', val = value', data_source = ''IEA SBTi Tool v2.4''\<rparr>
       (Some conflict_columns)"

text \<open>
  Lines 95 to 108, the loop over the year columns of one row; the state is
  \<^verbatim>\<open>sql_statements\<close> and \<^verbatim>\<open>values_found\<close>.
\<close>

fun year_loop_v2 ::
  "worksheet \<Rightarrow> nat \<Rightarrow> (int \<Rightarrow> cell \<Rightarrow> sql_statement) \<Rightarrow> (nat \<times> int) list \<Rightarrow>
   sql_statement list \<times> nat \<Rightarrow> sql_statement list \<times> nat" where
  "year_loop_v2 ws row_idx mk [] acc = acc"
| "year_loop_v2 ws row_idx mk ((col_idx, year') # rest) (sqls, values_found) =
     (let value' = cell_value ws row_idx col_idx in
      if emits value'
      then year_loop_v2 ws row_idx mk rest (sqls @ [mk year' value'], values_found + 1)
      else year_loop_v2 ws row_idx mk rest (sqls, values_found))"

record run_state_v2 =
  sql_statements_v2 :: "sql_statement list"
  processed_rows :: nat
  skipped_rows :: nat

text \<open>Line 86: \<^verbatim>\<open>not sector or not scenario\<close>, on the two labels of a row.\<close>

definition skip_v2 :: "dict \<Rightarrow> dict \<Rightarrow> cell \<Rightarrow> cell \<Rightarrow> bool" where
  "skip_v2 sector_map scenario_map sector_raw scenario_raw =
     (\<not> truthy (dict_get sector_map sector_raw CNone) \<or>
      \<not> truthy (dict_get scenario_map scenario_raw CNone))"

text \<open>Lines 65 to 111, one pass of the loop over the data rows.\<close>

definition row_step_v2 ::
  "dict \<Rightarrow> dict \<Rightarrow> worksheet \<Rightarrow> (nat \<times> int) list \<Rightarrow> run_state_v2 \<Rightarrow> nat \<Rightarrow> run_state_v2" where
  "row_step_v2 sector_map scenario_map ws year_columns st row_idx =
     (let scenario_raw = cell_value ws row_idx 2;
          region' = region_v2 (cell_value ws row_idx 4);
          metric_type_raw = cell_value ws row_idx 5;
          unit' = cell_value ws row_idx 6;
          sector_raw = cell_value ws row_idx 8;
          scenario' = dict_get scenario_map scenario_raw CNone;
          sector' = dict_get sector_map sector_raw CNone;
          metric_type' = metric_type_v2 metric_type_raw
      in
      if skip_v2 sector_map scenario_map sector_raw scenario_raw
      then st\<lparr>skipped_rows := skipped_rows st + 1\<rparr>
      else if metric_type' \<noteq> CStr ''Emissions'' then st
      else
        (case year_loop_v2 ws row_idx (sql_v2 scenario' sector' region' metric_type' unit')
                year_columns (sql_statements_v2 st, 0) of
           (sqls, values_found) \<Rightarrow>
             st\<lparr>sql_statements_v2 := sqls,
                processed_rows := (if values_found > 0 then processed_rows st + 1
                                   else processed_rows st)\<rparr>))"

definition rows_loop_v2 ::
  "dict \<Rightarrow> dict \<Rightarrow> worksheet \<Rightarrow> (nat \<times> int) list \<Rightarrow> run_state_v2" where
  "rows_loop_v2 sector_map scenario_map ws year_columns =
     foldl (row_step_v2 sector_map scenario_map ws year_columns)
       \<lparr>sql_statements_v2 = [], processed_rows = 0, skipped_rows = 0\<rparr>
       [2 ..< Suc (max_row ws)]"

text \<open>
  The whole function. The workbook is given by its \<^verbatim>\<open>Database\<close> sheet, if it has one.
  Without the sheet the function returns at line 18. Otherwise the file is written
  (lines 117 to 150: the \<^verbatim>\<open>DELETE\<close>, the statements, two \<^verbatim>\<open>SELECT\<close>s), and the summary
  is printed; line 156 reads \<^verbatim>\<open>year_columns[0][1]\<close> and \<^verbatim>\<open>year_columns[-1][1]\<close>, which
  raises \<^verbatim>\<open>IndexError\<close> on an empty list.
\<close>

datatype py_error = IndexError

record run_v2 =
  written_v2 :: "sql_statement list option"
  state_v2 :: run_state_v2
  raised_v2 :: "py_error option"

definition file_v2 :: "sql_statement list \<Rightarrow> sql_statement list" where
  "file_v2 sqls =
     [Delete_like ''IEA''] @ sqls @
     [Other_stmt ''SELECT scenario, sector, COUNT(*)'', Other_stmt ''SELECT *'']"

definition pipeline_v2 :: "dict \<Rightarrow> dict \<Rightarrow> worksheet option \<Rightarrow> run_v2" where
  "pipeline_v2 sector_map scenario_map database =
     (case database of
        None \<Rightarrow>
          \<lparr>written_v2 = None,
           state_v2 = \<lparr>sql_statements_v2 = [], processed_rows = 0, skipped_rows = 0\<rparr>,
           raised_v2 = None\<rparr>
      | Some ws \<Rightarrow>
          (let year_columns = year_columns_v2 ws;
               st = rows_loop_v2 sector_map scenario_map ws year_columns
           in \<lparr>written_v2 = Some (file_v2 (sql_statements_v2 st)),
               state_v2 = st,
               raised_v2 = (if year_columns = [] then Some IndexError else None)\<rparr>))"

definition extract_pathways_from_excel_v2 :: "worksheet option \<Rightarrow> run_v2" where
  "extract_pathways_from_excel_v2 database = pipeline_v2 sector_map_v2 scenario_map_v2 database"

section \<open>The first script\<close>

text \<open>
  Lines 64 to 72: \<^verbatim>\<open>row = list(ws[row_idx])\<close> has \<^verbatim>\<open>max_column\<close> cells, whatever the
  row holds, and the fields are read at fixed 0-based indices; the region is
  \<^verbatim>\<open>row[3].value if len(row) > 3 else 'World'\<close>.
\<close>

definition field_v1 :: "cell list \<Rightarrow> nat \<Rightarrow> cell \<Rightarrow> cell" where
  "field_v1 row i dflt = (if length row > i then row ! i else dflt)"

definition region_v1 :: "cell list \<Rightarrow> cell" where
  "region_v1 row = field_v1 row 3 (CStr ''World'')"

text \<open>Line 79.\<close>

definition metric_type_v1 :: "cell \<Rightarrow> cell" where
  "metric_type_v1 metric_type_raw =
     (if metric_type_raw = CStr ''Emissions'' then CStr ''Emissions'' else CStr ''Activity'')"

text \<open>
  Lines 75, 76 and 82: \<^verbatim>\<open>scenario = scenario_map.get(scenario_raw, scenario_raw)\<close>,
  \<^verbatim>\<open>sector = sector_map.get(sector_raw, None)\<close> and the test
  \<^verbatim>\<open>not sector or not scenario or scenario not in scenario_map.values()\<close>.
\<close>

definition skip_v1 :: "dict \<Rightarrow> dict \<Rightarrow> cell \<Rightarrow> cell \<Rightarrow> bool" where
  "skip_v1 sector_map scenario_map sector_raw scenario_raw =
     (let scenario' = dict_get scenario_map scenario_raw scenario_raw;
          sector' = dict_get sector_map sector_raw CNone
      in \<not> truthy sector' \<or> \<not> truthy scenario' \<or> scenario' \<notin> set (dict_values scenario_map))"

text \<open>Line 92: the statement has no \<^verbatim>\<open>ON CONFLICT\<close> clause.\<close>

definition sql_v1 :: "cell \<Rightarrow> cell \<Rightarrow> cell \<Rightarrow> cell \<Rightarrow> cell \<Rightarrow> int \<Rightarrow> cell \<Rightarrow> sql_statement" where
  "sql_v1 scenario' sector' region' metric_type' unit' year' value' =
     Insert_stmt
       \<lparr>scenario = scenario', sector = sector', region = region', metric_type = metric_type',
        unit = unit', year = year', val = value', data_source = ''IEA Database Sheet''\<rparr>
       None"

text \<open>Lines 86 to 94; the state is \<^verbatim>\<open>sql_statements\<close> and \<^verbatim>\<open>row_count\<close>.\<close>

fun year_loop_v1 ::
  "cell list \<Rightarrow> (int \<Rightarrow> cell \<Rightarrow> sql_statement) \<Rightarrow> (nat \<times> int) list \<Rightarrow>
   sql_statement list \<times> nat \<Rightarrow> sql_statement list \<times> nat" where
  "year_loop_v1 row mk [] acc = acc"
| "year_loop_v1 row mk ((col_idx, year') # rest) (sqls, row_count') =
     (if col_idx < length row then
        (let value' = row ! col_idx in
         if emits value'
         then year_loop_v1 row mk rest (sqls @ [mk year' value'], row_count' + 1)
         else year_loop_v1 row mk rest (sqls, row_count'))
      else year_loop_v1 row mk rest (sqls, row_count'))"

record run_state_v1 =
  sql_statements_v1 :: "sql_statement list"
  row_count :: nat

text \<open>Lines 63 to 94, one pass of the loop over the data rows.\<close>

definition row_step_v1 ::
  "dict \<Rightarrow> dict \<Rightarrow> worksheet \<Rightarrow> (nat \<times> int) list \<Rightarrow> run_state_v1 \<Rightarrow> nat \<Rightarrow> run_state_v1" where
  "row_step_v1 sector_map scenario_map ws year_columns st row_idx =
     (let row = ws_row ws row_idx;
          scenario_raw = field_v1 row 1 CNone;
          region' = region_v1 row;
          metric_type_raw = field_v1 row 4 CNone;
          unit' = field_v1 row 5 CNone;
          sector_raw = field_v1 row 7 CNone;
          scenario' = dict_get scenario_map scenario_raw scenario_raw;
          sector' = dict_get sector_map sector_raw CNone;
          metric_type' = metric_type_v1 metric_type_raw
      in
      if skip_v1 sector_map scenario_map sector_raw scenario_raw then st
      else
        (case year_loop_v1 row (sql_v1 scenario' sector' region' metric_type' unit')
                year_columns (sql_statements_v1 st, row_count st) of
           (sqls, row_count') \<Rightarrow> \<lparr>sql_statements_v1 = sqls, row_count = row_count'\<rparr>))"

definition rows_loop_v1 ::
  "dict \<Rightarrow> dict \<Rightarrow> worksheet \<Rightarrow> (nat \<times> int) list \<Rightarrow> run_state_v1" where
  "rows_loop_v1 sector_map scenario_map ws year_columns =
     foldl (row_step_v1 sector_map scenario_map ws year_columns)
       \<lparr>sql_statements_v1 = [], row_count = 0\<rparr>
       [2 ..< Suc (max_row ws)]"

text \<open>
  The whole function: without the \<^verbatim>\<open>Database\<close> sheet it returns at line 20; otherwise
  it writes the file (lines 99 to 113) and prints the summary, which reads only
  \<^verbatim>\<open>row_count\<close>. Nothing in it raises.
\<close>

record run_v1 =
  written_v1 :: "sql_statement list option"
  state_v1 :: run_state_v1
  raised_v1 :: "py_error option"

definition file_v1 :: "sql_statement list \<Rightarrow> sql_statement list" where
  "file_v1 sqls =
     [Other_stmt ''ALTER TABLE sbti_pathways DISABLE TRIGGER ALL''] @ sqls @
     [Other_stmt ''ALTER TABLE sbti_pathways ENABLE TRIGGER ALL'',
      Other_stmt ''SELECT scenario, sector, COUNT(*)'']"

definition pipeline_v1 :: "dict \<Rightarrow> dict \<Rightarrow> worksheet option \<Rightarrow> run_v1" where
  "pipeline_v1 sector_map scenario_map database =
     (case database of
        None \<Rightarrow>
          \<lparr>written_v1 = None,
           state_v1 = \<lparr>sql_statements_v1 = [], row_count = 0\<rparr>,
           raised_v1 = None\<rparr>
      | Some ws \<Rightarrow>
          (let year_columns = year_columns_v1 ws;
               st = rows_loop_v1 sector_map scenario_map ws year_columns
           in \<lparr>written_v1 = Some (file_v1 (sql_statements_v1 st)),
               state_v1 = st,
               raised_v1 = None\<rparr>))"

definition extract_pathways_from_excel_v1 :: "worksheet option \<Rightarrow> run_v1" where
  "extract_pathways_from_excel_v1 database = pipeline_v1 sector_map_v1 scenario_map_v1 database"

section \<open>The target store\<close>

text \<open>
  Modelled from the spec: the relational store the statements are applied to is not part
  of the sources. Its table holds rows, each uniquely keyed by (scenario, sector, region,
  metricType, unit, year). A statement with \<^verbatim>\<open>ON CONFLICT (columns) DO NOTHING\<close> does
  nothing when a stored row agrees with the new one on those columns; any other insert of
  a row whose key is already stored fails with a unique violation; otherwise the row is
  appended. Statements are applied in order up to the first failure. The parameter
  \<open>lit\<close> says how the store reads an interpolated Python value as a literal; every
  general result below holds for every \<open>lit\<close>.
\<close>

type_synonym store = "pathway_row list"

datatype db_error = Unique_violation

definition column :: "(cell \<Rightarrow> 'l) \<Rightarrow> pathway_row \<Rightarrow> string \<Rightarrow> 'l" where
  "column lit r name =
     (if name = ''scenario'' then lit (scenario r)
      else if name = ''sector'' then lit (sector r)
      else if name = ''region'' then lit (region r)
      else if name = ''metric_type'' then lit (metric_type r)
      else if name = ''unit'' then lit (unit r)
      else if name = ''year'' then lit (CInt (year r))
      else if name = ''value'' then lit (val r)
      else if name = ''data_source'' then lit (CStr (data_source r))
      else lit CNone)"

definition key_of :: "(cell \<Rightarrow> 'l) \<Rightarrow> string list \<Rightarrow> pathway_row \<Rightarrow> 'l list" where
  "key_of lit cols r = map (column lit r) cols"

definition conflicts :: "(cell \<Rightarrow> 'l) \<Rightarrow> string list \<Rightarrow> store \<Rightarrow> pathway_row \<Rightarrow> bool" where
  "conflicts lit cols s r = list_ex (\<lambda>r'. key_of lit cols r' = key_of lit cols r) s"

fun contains :: "string \<Rightarrow> string \<Rightarrow> bool" where
  "contains pat [] = (pat = [])"
| "contains pat (c # cs) = (take (length pat) (c # cs) = pat \<or> contains pat cs)"

fun apply_statement :: "(cell \<Rightarrow> 'l) \<Rightarrow> store \<Rightarrow> sql_statement \<Rightarrow> db_error + store" where
  "apply_statement lit s (Insert_stmt r (Some cols)) =
     (if conflicts lit cols s r then Inr s
      else if conflicts lit conflict_columns s r then Inl Unique_violation
      else Inr (s @ [r]))"
| "apply_statement lit s (Insert_stmt r None) =
     (if conflicts lit conflict_columns s r then Inl Unique_violation else Inr (s @ [r]))"
| "apply_statement lit s (Delete_like pat) =
     Inr (filter (\<lambda>r. \<not> contains pat (data_source r)) s)"
| "apply_statement lit s (Other_stmt q) = Inr s"

fun apply_all :: "(cell \<Rightarrow> 'l) \<Rightarrow> store \<Rightarrow> sql_statement list \<Rightarrow> db_error + store" where
  "apply_all lit s [] = Inr s"
| "apply_all lit s (q # qs) =
     (case apply_statement lit s q of
        Inl e \<Rightarrow> Inl e
      | Inr s' \<Rightarrow> apply_all lit s' qs)"

text \<open>
  Two tests on statements: whether it is an insert with the conflict clause on the key
  columns, and the row it inserts.
\<close>

fun on_conflict_do_nothing :: "sql_statement \<Rightarrow> bool" where
  "on_conflict_do_nothing (Insert_stmt r (Some cols)) = (cols = conflict_columns)"
| "on_conflict_do_nothing q = False"

fun inserted_row :: "sql_statement \<Rightarrow> pathway_row list" where
  "inserted_row (Insert_stmt r oc) = [r]"
| "inserted_row q = []"

section \<open>The statements one row adds\<close>

text \<open>
  Closed forms of the loops, used to state what a run emits: the statements the loop over
  the year columns appends for one row, and the statements one pass of the loop over the
  rows appends. The lemmas \<open>year_loop_v2_eq\<close>, \<open>year_loop_v1_eq\<close>, \<open>row_step_v2_sqls\<close> and
  \<open>row_step_v1_sqls\<close> below prove that the loops compute exactly these.
\<close>

definition row_sqls ::
  "(nat \<Rightarrow> cell) \<Rightarrow> (int \<Rightarrow> cell \<Rightarrow> sql_statement) \<Rightarrow> (nat \<times> int) list \<Rightarrow> sql_statement list" where
  "row_sqls cell_at mk ycs =
     map (\<lambda>cy. mk (snd cy) (cell_at (fst cy))) (filter (\<lambda>cy. emits (cell_at (fst cy))) ycs)"

definition row_output_v2 ::
  "dict \<Rightarrow> dict \<Rightarrow> worksheet \<Rightarrow> (nat \<times> int) list \<Rightarrow> nat \<Rightarrow> sql_statement list" where
  "row_output_v2 sm scm ws ycs i =
     (if skip_v2 sm scm (cell_value ws i 8) (cell_value ws i 2) \<or>
         metric_type_v2 (cell_value ws i 5) \<noteq> CStr ''Emissions''
      then []
      else row_sqls (cell_value ws i)
             (sql_v2 (dict_get scm (cell_value ws i 2) CNone) (dict_get sm (cell_value ws i 8) CNone)
                (region_v2 (cell_value ws i 4)) (metric_type_v2 (cell_value ws i 5))
                (cell_value ws i 6))
             ycs)"

definition row_output_v1 ::
  "dict \<Rightarrow> dict \<Rightarrow> worksheet \<Rightarrow> (nat \<times> int) list \<Rightarrow> nat \<Rightarrow> sql_statement list" where
  "row_output_v1 sm scm ws ycs i =
     (let row = ws_row ws i in
      if skip_v1 sm scm (field_v1 row 7 CNone) (field_v1 row 1 CNone) then []
      else row_sqls (\<lambda>c. row ! c)
             (sql_v1 (dict_get scm (field_v1 row 1 CNone) (field_v1 row 1 CNone))
                (dict_get sm (field_v1 row 7 CNone) CNone)
                (region_v1 row) (metric_type_v1 (field_v1 row 4 CNone)) (field_v1 row 5 CNone))
             (filter (\<lambda>cy. fst cy < length row) ycs))"

section \<open>Example sheets\<close>

text \<open>
  The header and the data row of the spec's round-trip example; the cells written
  \<open>_\<close> there are empty.
\<close>

definition example_header :: "cell list" where
  "example_header =
     [CNone, CStr ''Scenario'', CNone, CStr ''Region'', CStr ''Flow'', CStr ''Unit'', CNone,
      CStr ''Sector'', CStr ''2020'', CStr ''2021'']"

definition example_row :: "cell list" where
  "example_row =
     [CNone, CStr ''SBTi 1.5C'', CNone, CStr ''World'', CStr ''Emissions'', CStr ''MtCO2'', CNone,
      CStr ''Cement'', CFloat 12.5, CInt 0]"

definition example_sheet :: worksheet where
  "example_sheet = [example_header, example_row]"

text \<open>The record of the example, as each script tags it.\<close>

definition example_record_v2 :: pathway_row where
  "example_record_v2 =
     \<lparr>scenario = CStr ''SBTi_1.5C'', sector = CStr ''cement'', region = CStr ''World'',
      metric_type = CStr ''Emissions'', unit = CStr ''MtCO2'', year = 2020, val = CFloat 12.5,
      data_source = ''IEA SBTi Tool v2.4''\<rparr>"

definition example_record_v1 :: pathway_row where
  "example_record_v1 =
     \<lparr>scenario = CStr ''SBTi_1.5C'', sector = CStr ''cement'', region = CStr ''World'',
      metric_type = CStr ''Emissions'', unit = CStr ''MtCO2'', year = 2020, val = CFloat 12.5,
      data_source = ''IEA Database Sheet''\<rparr>"

text \<open>The same sheet with numeric year headers, which the first script reads.\<close>

definition numeric_header :: "cell list" where
  "numeric_header =
     [CNone, CStr ''Scenario'', CNone, CStr ''Region'', CStr ''Flow'', CStr ''Unit'', CNone,
      CStr ''Sector'', CInt 2020, CInt 2021]"

definition numeric_sheet :: worksheet where
  "numeric_sheet = [numeric_header, example_row]"

text \<open>Variants of the data row: another flow, an empty region, a scenario already in
  canonical form, an unmapped sector, boolean year cells.\<close>

definition energy_sheet :: worksheet where
  "energy_sheet = [numeric_header, example_row[4 := CStr ''Energy'']]"

definition empty_region_sheet :: worksheet where
  "empty_region_sheet = [numeric_header, example_row[3 := CNone]]"

definition empty_region_sheet_v2 :: worksheet where
  "empty_region_sheet_v2 = [example_header, example_row[3 := CNone]]"

definition canonical_scenario_sheet :: worksheet where
  "canonical_scenario_sheet = [numeric_header, example_row[1 := CStr ''ETP_B2DS'']]"

definition canonical_scenario_sheet_v2 :: worksheet where
  "canonical_scenario_sheet_v2 = [example_header, example_row[1 := CStr ''ETP_B2DS'']]"

definition chemicals_sheet :: worksheet where
  "chemicals_sheet = [example_header, example_row[7 := CStr ''Chemicals'']]"

definition bool_sheet :: worksheet where
  "bool_sheet = [example_header, example_row[8 := CBool True, 9 := CBool False]]"

definition numeric_bool_sheet :: worksheet where
  "numeric_bool_sheet = [numeric_header, example_row[8 := CBool True, 9 := CBool False]]"

text \<open>A header with no year at all, and headers where the year 2020 stands twice, as a
  string and as a number.\<close>

definition no_year_sheet :: worksheet where
  "no_year_sheet = [example_header[8 := CStr ''Total'', 9 := CStr ''Notes''], example_row]"



text \<open>Sheets with numeric year headers and an unmapped sector: that row alone, and that row
  after the row of the example.\<close>

definition numeric_chemicals_sheet :: worksheet where
  "numeric_chemicals_sheet = [numeric_header, example_row[7 := CStr ''Chemicals'']]"

definition numeric_two_row_sheet :: worksheet where
  "numeric_two_row_sheet = [numeric_header, example_row, example_row[7 := CStr ''Chemicals'']]"

section \<open>Facts about the loops\<close>

lemma year_loop_v2_eq:
  "year_loop_v2 ws i mk ycs (sqls, n) =
     (sqls @ row_sqls (cell_value ws i) mk ycs, n + length (row_sqls (cell_value ws i) mk ycs))"
  by (induction ycs arbitrary: sqls n) (auto simp: row_sqls_def Let_def)

lemma year_loop_v1_eq:
  "year_loop_v1 row mk ycs (sqls, n) =
     (sqls @ row_sqls (\<lambda>c. row ! c) mk (filter (\<lambda>cy. fst cy < length row) ycs),
      n + length (row_sqls (\<lambda>c. row ! c) mk (filter (\<lambda>cy. fst cy < length row) ycs)))"
  by (induction ycs arbitrary: sqls n) (auto simp: row_sqls_def Let_def)

lemma row_step_v2_sqls:
  "sql_statements_v2 (row_step_v2 sm scm ws ycs st i) =
     sql_statements_v2 st @ row_output_v2 sm scm ws ycs i"
  by (simp add: row_step_v2_def row_output_v2_def year_loop_v2_eq Let_def)

lemma row_step_v1_sqls:
  "sql_statements_v1 (row_step_v1 sm scm ws ycs st i) =
     sql_statements_v1 st @ row_output_v1 sm scm ws ycs i"
  by (simp add: row_step_v1_def row_output_v1_def year_loop_v1_eq Let_def)

lemma foldl_v2_sqls:
  "sql_statements_v2 (foldl (row_step_v2 sm scm ws ycs) st rows) =
     sql_statements_v2 st @ concat (map (row_output_v2 sm scm ws ycs) rows)"
  by (induction rows arbitrary: st) (simp_all add: row_step_v2_sqls)

lemma foldl_v1_sqls:
  "sql_statements_v1 (foldl (row_step_v1 sm scm ws ycs) st rows) =
     sql_statements_v1 st @ concat (map (row_output_v1 sm scm ws ycs) rows)"
  by (induction rows arbitrary: st) (simp_all add: row_step_v1_sqls)

lemma rows_loop_v2_sqls:
  "sql_statements_v2 (rows_loop_v2 sm scm ws ycs) =
     concat (map (row_output_v2 sm scm ws ycs) [2 ..< Suc (max_row ws)])"
  by (simp add: rows_loop_v2_def foldl_v2_sqls)

lemma rows_loop_v1_sqls:
  "sql_statements_v1 (rows_loop_v1 sm scm ws ycs) =
     concat (map (row_output_v1 sm scm ws ycs) [2 ..< Suc (max_row ws)])"
  by (simp add: rows_loop_v1_def foldl_v1_sqls)

lemma pipeline_v2_sqls:
  "sql_statements_v2 (state_v2 (pipeline_v2 sm scm (Some ws))) =
     concat (map (row_output_v2 sm scm ws (year_columns_v2 ws)) [2 ..< Suc (max_row ws)])"
  by (simp add: pipeline_v2_def Let_def rows_loop_v2_sqls)

lemma pipeline_v1_sqls:
  "sql_statements_v1 (state_v1 (pipeline_v1 sm scm (Some ws))) =
     concat (map (row_output_v1 sm scm ws (year_columns_v1 ws)) [2 ..< Suc (max_row ws)])"
  by (simp add: pipeline_v1_def Let_def rows_loop_v1_sqls)

lemma row_step_v2_skipped:
  "skipped_rows (row_step_v2 sm scm ws ycs st i) =
     skipped_rows st + (if skip_v2 sm scm (cell_value ws i 8) (cell_value ws i 2) then 1 else 0)"
  by (simp add: row_step_v2_def Let_def split: prod.splits)

lemma foldl_v2_skipped:
  "skipped_rows (foldl (row_step_v2 sm scm ws ycs) st rows) =
     skipped_rows st +
     length (filter (\<lambda>i. skip_v2 sm scm (cell_value ws i 8) (cell_value ws i 2)) rows)"
  by (induction rows arbitrary: st) (simp_all add: row_step_v2_skipped)

lemma row_step_v2_skip:
  "skip_v2 sm scm (cell_value ws i 8) (cell_value ws i 2) \<Longrightarrow>
     row_step_v2 sm scm ws ycs st i = st\<lparr>skipped_rows := skipped_rows st + 1\<rparr>"
  by (simp add: row_step_v2_def Let_def)

lemma row_step_v1_skip:
  "skip_v1 sm scm (field_v1 (ws_row ws i) 7 CNone) (field_v1 (ws_row ws i) 1 CNone) \<Longrightarrow>
     row_step_v1 sm scm ws ycs st i = st"
  by (simp add: row_step_v1_def Let_def)

lemma row_sqls_Nil: "row_sqls cell_at mk [] = []"
  by (simp add: row_sqls_def)

lemma row_sqls_mem:
  "(c, y) \<in> set ycs \<Longrightarrow> emits (cell_at c) \<Longrightarrow> mk y (cell_at c) \<in> set (row_sqls cell_at mk ycs)"
  by (force simp: row_sqls_def)

lemma row_output_v2_Nil: "row_output_v2 sm scm ws [] = (\<lambda>i. [])"
  by (rule ext) (simp add: row_output_v2_def row_sqls_Nil)

lemma row_output_v1_Nil: "row_output_v1 sm scm ws [] = (\<lambda>i. [])"
  by (rule ext) (simp add: row_output_v1_def row_sqls_Nil Let_def)

section \<open>Facts about the worksheet, the dictionaries and the cell test\<close>

lemma length_ws_row: "length (ws_row ws i) = max_column ws"
  by (simp add: ws_row_def del: upt_Suc)

lemma ws_row_nth: "c < max_column ws \<Longrightarrow> ws_row ws i ! c = cell_value ws i (Suc c)"
  unfolding ws_row_def by (simp add: nth_map_upt del: upt_Suc)

lemma dict_get_None_values:
  "dict_get d k CNone = CNone \<or> dict_get d k CNone \<in> set (dict_values d)"
  by (cases k) (force simp: dict_get_def dict_values_def split: option.splits dest!: map_of_SomeD)+

lemma dict_get_not_key: "k \<notin> set (dict_keys d) \<Longrightarrow> dict_get d k dflt = dflt"
  by (cases k) (force simp: dict_get_def dict_keys_def split: option.splits dest!: map_of_SomeD)+

lemma truthy_dict_get_key: "truthy (dict_get d k CNone) \<Longrightarrow> k \<in> set (dict_keys d)"
  using dict_get_not_key[of k d CNone] by (cases "k \<in> set (dict_keys d)") auto

lemma emits_numeric:
  "emits v \<Longrightarrow> v \<noteq> CNone \<and> isinstance_int_float v \<and> (\<exists>x. num_value v = Some x \<and> x \<noteq> 0)"
  by (cases v) (auto simp: emits_def)

lemma emits_cases:
  "emits v \<Longrightarrow>
     (\<exists>n. v = CInt n \<and> n \<noteq> 0) \<or> (\<exists>x. v = CFloat x \<and> x \<noteq> 0) \<or> v = CBool True"
  by (cases v) (auto simp: emits_def)

section \<open>Facts about the year columns\<close>

lemma set_map_filter_iff:
  "y \<in> set (List.map_filter f xs) \<longleftrightarrow> (\<exists>x. x \<in> set xs \<and> f x = Some y)"
  by (induction xs) (auto split: option.splits)


lemma header_year_v2_range: "header_year_v2 h = Some y \<Longrightarrow> 2014 \<le> y \<and> y \<le> 2050"
  by (auto simp: header_year_v2_def split: cell.splits option.splits if_splits)

lemma header_year_v1_range: "header_year_v1 h = Some y \<Longrightarrow> 2014 \<le> y \<and> y \<le> 2050"
  by (cases h)
    (auto simp: header_year_v1_def int_of_number_def le_floor_iff floor_le_iff
      split: option.splits if_splits)

lemma year_columns_v2_mem:
  "(c, y) \<in> set (year_columns_v2 ws) \<longleftrightarrow>
     9 \<le> c \<and> c \<le> max_column ws \<and> header_year_v2 (cell_value ws 1 c) = Some y"
  by (auto simp: year_columns_v2_def set_map_filter_iff simp del: upt_Suc)

lemma year_columns_v1_mem:
  "(i, y) \<in> set (year_columns_v1 ws) \<longleftrightarrow>
     i < max_column ws \<and> header_year_v1 (cell_value ws 1 (Suc i)) = Some y"
  by (auto simp: year_columns_v1_def headers_def set_map_filter_iff in_set_enumerate_eq
      length_ws_row ws_row_nth simp del: upt_Suc)



section \<open>Facts about what a run emits\<close>

lemma row_output_v2_form:
  "q \<in> set (row_output_v2 sm scm ws ycs i) \<Longrightarrow>
     \<exists>r. q = Insert_stmt r (Some conflict_columns) \<and> data_source r = ''IEA SBTi Tool v2.4''"
  by (auto simp: row_output_v2_def row_sqls_def sql_v2_def split: if_splits)

lemma rows_loop_v2_form:
  "q \<in> set (sql_statements_v2 (rows_loop_v2 sm scm ws ycs)) \<Longrightarrow>
     \<exists>r. q = Insert_stmt r (Some conflict_columns) \<and> data_source r = ''IEA SBTi Tool v2.4''"
  unfolding rows_loop_v2_sqls using row_output_v2_form by fastforce

lemma pipeline_v2_form:
  "q \<in> set (sql_statements_v2 (state_v2 (pipeline_v2 sm scm database))) \<Longrightarrow>
     \<exists>r. q = Insert_stmt r (Some conflict_columns) \<and> data_source r = ''IEA SBTi Tool v2.4''"
  using rows_loop_v2_form[of q sm scm]
  by (cases database) (auto simp: pipeline_v2_def Let_def)

lemma row_output_v2_invariant:
  assumes "Insert_stmt r oc \<in> set (row_output_v2 sm scm ws ycs i)"
  shows "scenario r \<in> set (dict_values scm) \<and> sector r \<in> set (dict_values sm) \<and>
         metric_type r = CStr ''Emissions'' \<and> emits (val r) \<and>
         (\<exists>c. (c, year r) \<in> set ycs \<and> val r = cell_value ws i c)"
proof -
  from assms have ns: "\<not> skip_v2 sm scm (cell_value ws i 8) (cell_value ws i 2)"
    and m: "metric_type_v2 (cell_value ws i 5) = CStr ''Emissions''"
    by (auto simp: row_output_v2_def split: if_splits)
  from ns have "dict_get scm (cell_value ws i 2) CNone \<in> set (dict_values scm)"
    and "dict_get sm (cell_value ws i 8) CNone \<in> set (dict_values sm)"
    using dict_get_None_values[of scm "cell_value ws i 2"]
      dict_get_None_values[of sm "cell_value ws i 8"]
    by (auto simp: skip_v2_def)
  with assms ns m show ?thesis
    by (auto simp: row_output_v2_def row_sqls_def sql_v2_def)
qed

lemma row_output_v1_invariant:
  assumes "Insert_stmt r oc \<in> set (row_output_v1 sm scm ws ycs i)"
  shows "scenario r \<in> set (dict_values scm) \<and> sector r \<in> set (dict_values sm) \<and>
         emits (val r) \<and>
         (\<exists>c. (c, year r) \<in> set ycs \<and> c < max_column ws \<and> val r = cell_value ws i (Suc c))"
proof -
  let ?row = "ws_row ws i"
  from assms have ns: "\<not> skip_v1 sm scm (field_v1 ?row 7 CNone) (field_v1 ?row 1 CNone)"
    by (auto simp: row_output_v1_def Let_def split: if_splits)
  then have "dict_get scm (field_v1 ?row 1 CNone) (field_v1 ?row 1 CNone) \<in> set (dict_values scm)"
    and "dict_get sm (field_v1 ?row 7 CNone) CNone \<in> set (dict_values sm)"
    using dict_get_None_values[of sm "field_v1 ?row 7 CNone"]
    by (auto simp: skip_v1_def Let_def)
  with assms ns show ?thesis
    by (auto simp: row_output_v1_def row_sqls_def sql_v1_def Let_def length_ws_row ws_row_nth)
qed

lemma pipeline_v2_emits:
  assumes "Insert_stmt r oc \<in> set (sql_statements_v2 (state_v2 (pipeline_v2 sm scm (Some ws))))"
  shows "emits (val r)"
proof -
  from assms obtain i where
    "Insert_stmt r oc \<in> set (row_output_v2 sm scm ws (year_columns_v2 ws) i)"
    unfolding pipeline_v2_sqls by (auto simp del: upt_Suc)
  from row_output_v2_invariant[OF this] show ?thesis by blast
qed

lemma pipeline_v1_emits:
  assumes "Insert_stmt r oc \<in> set (sql_statements_v1 (state_v1 (pipeline_v1 sm scm (Some ws))))"
  shows "emits (val r)"
proof -
  from assms obtain i where
    "Insert_stmt r oc \<in> set (row_output_v1 sm scm ws (year_columns_v1 ws) i)"
    unfolding pipeline_v1_sqls by (auto simp del: upt_Suc)
  from row_output_v1_invariant[OF this] show ?thesis by blast
qed

section \<open>Facts about the store\<close>

lemma conflicts_iff:
  "conflicts lit cols s r \<longleftrightarrow> key_of lit cols r \<in> set (map (key_of lit cols) s)"
  unfolding conflicts_def list_ex_iff set_map image_iff by metis

lemma apply_all_append:
  "apply_all lit s (qs @ qs') =
     (case apply_all lit s qs of Inl e \<Rightarrow> Inl e | Inr s' \<Rightarrow> apply_all lit s' qs')"
  by (induction qs arbitrary: s) (auto split: sum.splits)

text \<open>
  Statements that all carry a conflict clause never fail; they only append rows, each the
  row of one of the statements, and afterwards every statement finds its key stored.
\<close>

lemma on_conflict_do_nothingE:
  assumes "on_conflict_do_nothing q"
  obtains r where "q = Insert_stmt r (Some conflict_columns)"
  using assms by (cases q rule: on_conflict_do_nothing.cases) auto

lemma apply_upserts_grows:
  "list_all on_conflict_do_nothing qs \<Longrightarrow>
     \<exists>t. apply_all lit s qs = Inr (s @ t) \<and>
         set t \<subseteq> set (concat (map inserted_row qs)) \<and>
         (\<forall>x. Insert_stmt x (Some conflict_columns) \<in> set qs \<longrightarrow>
              conflicts lit conflict_columns (s @ t) x)"
proof (induction qs arbitrary: s)
  case Nil
  then show ?case by simp
next
  case (Cons q qs)
  from Cons.prems obtain r where q: "q = Insert_stmt r (Some conflict_columns)"
    by (auto elim: on_conflict_do_nothingE)
  from Cons.prems have rest: "list_all on_conflict_do_nothing qs" by simp
  show ?case
  proof (cases "conflicts lit conflict_columns s r")
    case True
    from Cons.IH[OF rest, of s] obtain t where
      t: "apply_all lit s qs = Inr (s @ t)" "set t \<subseteq> set (concat (map inserted_row qs))"
         "\<forall>x. Insert_stmt x (Some conflict_columns) \<in> set qs \<longrightarrow>
              conflicts lit conflict_columns (s @ t) x"
      by blast
    from t True show ?thesis
      by (intro exI[of _ t]) (auto simp: q conflicts_def)
  next
    case False
    from Cons.IH[OF rest, of "s @ [r]"] obtain t where
      t: "apply_all lit (s @ [r]) qs = Inr ((s @ [r]) @ t)"
         "set t \<subseteq> set (concat (map inserted_row qs))"
         "\<forall>x. Insert_stmt x (Some conflict_columns) \<in> set qs \<longrightarrow>
              conflicts lit conflict_columns ((s @ [r]) @ t) x"
      by blast
    from t False show ?thesis
      by (intro exI[of _ "r # t"]) (auto simp: q conflicts_def)
  qed
qed

lemma apply_upserts_noop:
  "list_all on_conflict_do_nothing qs \<Longrightarrow>
   \<forall>x. Insert_stmt x (Some conflict_columns) \<in> set qs \<longrightarrow> conflicts lit conflict_columns s x \<Longrightarrow>
   apply_all lit s qs = Inr s"
proof (induction qs)
  case Nil
  then show ?case by simp
next
  case (Cons q qs)
  from Cons.prems(1) obtain r where q: "q = Insert_stmt r (Some conflict_columns)"
    by (auto elim: on_conflict_do_nothingE)
  with Cons show ?case by simp
qed

lemma apply_upserts_distinct:
  "list_all on_conflict_do_nothing qs \<Longrightarrow>
   distinct (map (key_of lit conflict_columns) s) \<Longrightarrow> apply_all lit s qs = Inr s' \<Longrightarrow>
   distinct (map (key_of lit conflict_columns) s')"
proof (induction qs arbitrary: s)
  case Nil
  then show ?case by simp
next
  case (Cons q qs)
  from Cons.prems(1) obtain r where q: "q = Insert_stmt r (Some conflict_columns)"
    by (auto elim: on_conflict_do_nothingE)
  show ?case
  proof (cases "conflicts lit conflict_columns s r")
    case True
    with Cons q show ?thesis by auto
  next
    case False
    then have "distinct (map (key_of lit conflict_columns) (s @ [r]))"
      using Cons.prems(2) by (simp add: conflicts_iff)
    moreover have "apply_all lit (s @ [r]) qs = Inr s'"
      using Cons.prems(3) False by (simp add: q)
    ultimately show ?thesis
      using Cons.IH[of "s @ [r]"] Cons.prems(1) by simp
  qed
qed

lemma apply_all_file_v2:
  "apply_all lit s (file_v2 sqls) =
     apply_all lit (filter (\<lambda>r. \<not> contains ''IEA'' (data_source r)) s) sqls"
  by (simp add: file_v2_def apply_all_append split: sum.splits)

lemma contains_IEA: "contains ''IEA'' ''IEA SBTi Tool v2.4''"
  by simp

section \<open>Re-applying the statements (claim C1)\<close>

text \<open>
  The second script: every statement of a run carries the conflict clause on (scenario,
  sector, region, metric_type, unit, year). Applied to any store the statements only
  append rows and applying them again changes nothing; from the empty store, applying them
  twice gives the store that applying them once gives, with no key twice. The written
  file starts with the \<^verbatim>\<open>DELETE\<close> of the rows tagged IEA; applied to the store it has
  produced from the empty one, it produces that store again.
\<close>

lemma second_script_reapply:
  fixes lit :: "cell \<Rightarrow> 'l"
  assumes sqls: "sqls = sql_statements_v2 (state_v2 (pipeline_v2 sm scm database))"
  shows "list_all on_conflict_do_nothing sqls"
    and "\<exists>t. apply_all lit s sqls = Inr (s @ t) \<and> apply_all lit (s @ t) sqls = Inr (s @ t)"
    and "\<exists>s1. apply_all lit [] sqls = Inr s1 \<and> apply_all lit [] (sqls @ sqls) = Inr s1 \<and>
              distinct (map (key_of lit conflict_columns) s1)"
    and "\<exists>s1. apply_all lit [] (file_v2 sqls) = Inr s1 \<and> apply_all lit s1 (file_v2 sqls) = Inr s1"
proof -
  show ups: "list_all on_conflict_do_nothing sqls"
    unfolding list_all_iff sqls using pipeline_v2_form by fastforce
  have grow: "\<exists>t. apply_all lit s sqls = Inr (s @ t) \<and> apply_all lit (s @ t) sqls = Inr (s @ t) \<and>
      set t \<subseteq> set (concat (map inserted_row sqls))" for s
  proof -
    from apply_upserts_grows[OF ups, of lit s] obtain t where
      t: "apply_all lit s sqls = Inr (s @ t)" "set t \<subseteq> set (concat (map inserted_row sqls))"
         "\<forall>x. Insert_stmt x (Some conflict_columns) \<in> set sqls \<longrightarrow>
              conflicts lit conflict_columns (s @ t) x"
      by blast
    from apply_upserts_noop[OF ups t(3)] t show ?thesis by blast
  qed
  from grow[of s]
  show "\<exists>t. apply_all lit s sqls = Inr (s @ t) \<and> apply_all lit (s @ t) sqls = Inr (s @ t)"
    by blast
  from grow[of "[]"] obtain t where
    t: "apply_all lit [] sqls = Inr t" "apply_all lit t sqls = Inr t"
       "set t \<subseteq> set (concat (map inserted_row sqls))"
    by auto
  have "distinct (map (key_of lit conflict_columns) t)"
    using apply_upserts_distinct[OF ups _ t(1)] by simp
  with t show "\<exists>s1. apply_all lit [] sqls = Inr s1 \<and> apply_all lit [] (sqls @ sqls) = Inr s1 \<and>
              distinct (map (key_of lit conflict_columns) s1)"
    by (simp add: apply_all_append)
  have "contains ''IEA'' (data_source r)" if "r \<in> set t" for r
  proof -
    from that t(3) obtain q where q: "q \<in> set sqls" "r \<in> set (inserted_row q)" by auto
    from q(1) pipeline_v2_form[of q sm scm database] obtain r' where
      "q = Insert_stmt r' (Some conflict_columns)" "data_source r' = ''IEA SBTi Tool v2.4''"
      unfolding sqls by blast
    with q(2) show ?thesis by (simp add: contains_IEA del: contains.simps)
  qed
  then have "filter (\<lambda>r. \<not> contains ''IEA'' (data_source r)) t = []"
    by (simp add: filter_empty_conv del: contains.simps)
  with t
  show "\<exists>s1. apply_all lit [] (file_v2 sqls) = Inr s1 \<and> apply_all lit s1 (file_v2 sqls) = Inr s1"
    by (simp add: apply_all_file_v2)
qed

text \<open>
  Claim C1: for every emitted record the serialized statement carries the conflict key
  (scenario, sector, region, metricType, unit, year) with do-nothing-on-conflict semantics,
  so that applying the emitted statements twice to an empty store gives the record set that
  applying them once gives, existing records being preserved.

  The second script does this (\<open>second_script_reapply\<close>). The first script does not: on
  the example sheet with numeric year headers its only statement is a plain insert with no
  conflict clause; applied once to the empty store it stores the record, and applied a
  second time it fails on the key that is already stored.
\<close>

theorem first_script_insert_without_conflict_clause:
  "sql_statements_v1 (state_v1 (extract_pathways_from_excel_v1 (Some numeric_sheet))) =
     [Insert_stmt example_record_v1 None] \<and>
   \<not> on_conflict_do_nothing (Insert_stmt example_record_v1 None) \<and>
   apply_all (\<lambda>v. v) [] [Insert_stmt example_record_v1 None] = Inr [example_record_v1] \<and>
   apply_all (\<lambda>v. v) [] ([Insert_stmt example_record_v1 None] @ [Insert_stmt example_record_v1 None]) =
     Inl Unique_violation"
  by code_simp

section \<open>The scanner (claim C2)\<close>







lemma spec_resolves_year_range: "spec_resolves_year h = Some y \<Longrightarrow> 2014 \<le> y \<and> y \<le> 2050"
  by (cases h)
    (auto simp: spec_resolves_year_def int_of_number_def le_floor_iff floor_le_iff
      split: option.splits if_splits)





section \<open>The metric type (claim C3)\<close>

text \<open>The second script: the rule of lines 78 to 83.\<close>

lemma metric_type_v2_rule:
  "metric_type_v2 (CStr ''Emissions'') = CStr ''Emissions''"
  "raw = CStr ''Electricity'' \<or> raw = CStr ''Activity'' \<Longrightarrow> metric_type_v2 raw = CStr ''Activity''"
  "raw \<noteq> CStr ''Emissions'' \<Longrightarrow> raw \<noteq> CStr ''Electricity'' \<Longrightarrow> raw \<noteq> CStr ''Activity'' \<Longrightarrow>
     metric_type_v2 raw = raw"
  by (auto simp: metric_type_v2_def)

text \<open>
  Claim C3: "Emissions" maps to Emissions, a label in {"Electricity", "Activity"} maps to
  Activity, and any other raw label, None included, passes through unchanged, never
  coerced to another category.

  The second script does this (\<open>metric_type_v2_rule\<close>). The first script turns every label
  other than "Emissions" into Activity: the unknown label "Energy" and the empty cell both
  become Activity, and the row of the example with the flow "Energy" is emitted with
  metric type Activity, where the second script passes "Energy" and None through.
\<close>

theorem first_script_metric_type_coerced:
  "metric_type_v1 (CStr ''Energy'') = CStr ''Activity'' \<and>
   metric_type_v1 CNone = CStr ''Activity'' \<and>
   sql_statements_v1 (state_v1 (extract_pathways_from_excel_v1 (Some energy_sheet))) =
     [Insert_stmt (example_record_v1\<lparr>metric_type := CStr ''Activity''\<rparr>) None] \<and>
   metric_type_v2 (CStr ''Energy'') = CStr ''Energy'' \<and>
   metric_type_v2 CNone = CNone"
  by code_simp

section \<open>Unmapped labels (claims C4 and C9)\<close>

text \<open>
  The second script: a row whose sector label or scenario label is not a key of its
  mapping is skipped; the pass over it adds no statement and adds one to
  \<^verbatim>\<open>skipped_rows\<close>.
\<close>

lemma skip_v2_not_key:
  "sector_raw \<notin> set (dict_keys sm) \<or> scenario_raw \<notin> set (dict_keys scm) \<Longrightarrow>
     skip_v2 sm scm sector_raw scenario_raw"
  unfolding skip_v2_def using truthy_dict_get_key by blast

lemma second_script_rejects_non_keys:
  assumes "cell_value ws i 8 \<notin> set (dict_keys sm) \<or> cell_value ws i 2 \<notin> set (dict_keys scm)"
  shows "row_step_v2 sm scm ws ycs st i = st\<lparr>skipped_rows := skipped_rows st + 1\<rparr>"
    and "row_output_v2 sm scm ws ycs i = []"
  using skip_v2_not_key[OF assms] by (simp_all add: row_step_v2_skip row_output_v2_def)

lemma skip_v1_not_sector_key:
  "sector_raw \<notin> set (dict_keys sm) \<Longrightarrow> skip_v1 sm scm sector_raw scenario_raw"
  unfolding skip_v1_def Let_def using truthy_dict_get_key by blast

text \<open>
  Claim C4: a row whose raw sector label or raw scenario label is not exactly a key of the
  respective mapping is rejected and contributes no record; a row is accepted only when
  both labels are exact keys.

  The second script does this (\<open>second_script_rejects_non_keys\<close>). The first script looks
  the scenario up with the raw label as default and then tests membership in the values,
  so a raw label that is already a canonical value is accepted though it is no key: the
  row of the example with the scenario "ETP_B2DS" is emitted by the first script and
  skipped by the second.
\<close>

theorem first_script_accepts_canonical_scenario:
  "cell_value canonical_scenario_sheet 2 2 = CStr ''ETP_B2DS'' \<and>
   CStr ''ETP_B2DS'' \<notin> set (dict_keys scenario_map_v1) \<and>
   sql_statements_v1 (state_v1 (extract_pathways_from_excel_v1 (Some canonical_scenario_sheet))) =
     [Insert_stmt (example_record_v1\<lparr>scenario := CStr ''ETP_B2DS''\<rparr>) None] \<and>
   state_v2 (extract_pathways_from_excel_v2 (Some canonical_scenario_sheet_v2)) =
     \<lparr>sql_statements_v2 = [], processed_rows = 0, skipped_rows = 1\<rparr>"
  by code_simp

text \<open>
  The second script counts: the pass over a row whose sector label is not a key returns
  the state with \<^verbatim>\<open>skipped_rows\<close> one higher and nothing else changed, and at the end
  of a run \<^verbatim>\<open>skipped_rows\<close> is the number of data rows that met the test of line 86.
\<close>

lemma second_script_unmapped_sector_row_skipped:
  "cell_value ws i 8 \<notin> set (dict_keys sm) \<Longrightarrow>
     row_step_v2 sm scm ws ycs st i = st\<lparr>skipped_rows := skipped_rows st + 1\<rparr>"
  "skipped_rows (state_v2 (pipeline_v2 sm scm (Some ws))) =
     length (filter (\<lambda>i. skip_v2 sm scm (cell_value ws i 8) (cell_value ws i 2))
       [2 ..< Suc (max_row ws)])"
proof -
  show "cell_value ws i 8 \<notin> set (dict_keys sm) \<Longrightarrow>
     row_step_v2 sm scm ws ycs st i = st\<lparr>skipped_rows := skipped_rows st + 1\<rparr>"
    using skip_v2_not_key[of "cell_value ws i 8" sm "cell_value ws i 2" scm]
      row_step_v2_skip[of sm scm ws i ycs st]
    by blast
  show "skipped_rows (state_v2 (pipeline_v2 sm scm (Some ws))) =
     length (filter (\<lambda>i. skip_v2 sm scm (cell_value ws i 8) (cell_value ws i 2))
       [2 ..< Suc (max_row ws)])"
    by (simp add: pipeline_v2_def Let_def rows_loop_v2_def foldl_v2_skipped del: upt_Suc)
qed

lemma first_script_unmapped_sector_row_unchanged:
  "field_v1 (ws_row ws i) 7 CNone \<notin> set (dict_keys sm) \<Longrightarrow>
     row_step_v1 sm scm ws ycs st i = st"
  using skip_v1_not_sector_key[of "field_v1 (ws_row ws i) 7 CNone" sm scm
      "field_v1 (ws_row ws i) 1 CNone"]
    row_step_v1_skip[of sm scm ws i ycs st]
  by blast

text \<open>
  Claim C9: for a data row whose raw sector label (for example "Chemicals") is absent from
  the sector mapping, the run yields no record from that row and the skipped-rows counter
  goes up by exactly one for it.

  The second script does this (\<open>second_script_unmapped_sector_row_skipped\<close>): on the
  example sheet with the sector "Chemicals" it emits nothing and ends with
  \<^verbatim>\<open>skipped_rows\<close> 1. The first script emits nothing for the row either, but it counts
  nothing: lines 82 and 83 go on to the next row, and the state of the run holds only the
  statements and \<^verbatim>\<open>row_count\<close>. With year columns found, its whole result on the
  sheet with the "Chemicals" row is its result on the header alone, and its result with
  that row after the row of the example is its result on the row of the example alone.
\<close>

theorem first_script_counts_no_skipped_row:
  "cell_value numeric_chemicals_sheet 2 8 = CStr ''Chemicals'' \<and>
   CStr ''Chemicals'' \<notin> set (dict_keys sector_map_v1) \<and>
   year_columns_v1 numeric_chemicals_sheet = [(8, 2020), (9, 2021)] \<and>
   state_v1 (extract_pathways_from_excel_v1 (Some numeric_chemicals_sheet)) =
     \<lparr>sql_statements_v1 = [], row_count = 0\<rparr> \<and>
   extract_pathways_from_excel_v1 (Some numeric_chemicals_sheet) =
     extract_pathways_from_excel_v1 (Some [numeric_header]) \<and>
   state_v1 (extract_pathways_from_excel_v1 (Some numeric_two_row_sheet)) =
     \<lparr>sql_statements_v1 = [Insert_stmt example_record_v1 None], row_count = 1\<rparr> \<and>
   extract_pathways_from_excel_v1 (Some numeric_two_row_sheet) =
     extract_pathways_from_excel_v1 (Some numeric_sheet) \<and>
   state_v2 (extract_pathways_from_excel_v2 (Some chemicals_sheet)) =
     \<lparr>sql_statements_v2 = [], processed_rows = 0, skipped_rows = 1\<rparr>"
  by code_simp

section \<open>No year column (claim C5)\<close>

text \<open>
  Without a year column both scripts emit nothing. The first script then returns; the
  second script has written its file and raises on the last line of its summary.
\<close>

lemma no_year_columns_v2:
  assumes "year_columns_v2 ws = []"
  shows "sql_statements_v2 (state_v2 (pipeline_v2 sm scm (Some ws))) = []"
    and "written_v2 (pipeline_v2 sm scm (Some ws)) = Some (file_v2 [])"
    and "raised_v2 (pipeline_v2 sm scm (Some ws)) = Some IndexError"
proof -
  show e: "sql_statements_v2 (state_v2 (pipeline_v2 sm scm (Some ws))) = []"
    unfolding pipeline_v2_sqls using assms
    by (simp add: row_output_v2_Nil del: upt_Suc)
  then show "written_v2 (pipeline_v2 sm scm (Some ws)) = Some (file_v2 [])"
    by (simp add: pipeline_v2_def Let_def)
  show "raised_v2 (pipeline_v2 sm scm (Some ws)) = Some IndexError"
    using assms by (simp add: pipeline_v2_def Let_def)
qed

lemma no_year_columns_v1:
  assumes "year_columns_v1 ws = []"
  shows "sql_statements_v1 (state_v1 (pipeline_v1 sm scm (Some ws))) = []"
  unfolding pipeline_v1_sqls using assms
  by (simp add: row_output_v1_Nil del: upt_Suc)

lemma pipeline_v1_never_raises: "raised_v1 (pipeline_v1 sm scm database) = None"
  by (simp add: pipeline_v1_def Let_def split: option.splits)

text \<open>
  Claim C5: for a sheet whose header row has no cell resolving to a year in [2014, 2050],
  the pipeline produces an empty column map and no record, whatever the data rows, and the
  run completes normally, without an exception, reporting the zero yield.

  The column map and the statements are empty (\<open>no_year_columns_v2\<close>), but the run of the
  second script does not complete normally: line 156 indexes the empty \<^verbatim>\<open>year_columns\<close>
  and raises \<^verbatim>\<open>IndexError\<close>. On the example row under a header without years the file is
  written with no insert and the run ends in the exception; the first script on the same
  sheet returns.
\<close>

theorem second_script_no_year_columns_raises:
  "year_columns_v2 no_year_sheet = [] \<and>
   sql_statements_v2 (state_v2 (extract_pathways_from_excel_v2 (Some no_year_sheet))) = [] \<and>
   written_v2 (extract_pathways_from_excel_v2 (Some no_year_sheet)) = Some (file_v2 []) \<and>
   raised_v2 (extract_pathways_from_excel_v2 (Some no_year_sheet)) = Some IndexError \<and>
   sql_statements_v1 (state_v1 (extract_pathways_from_excel_v1 (Some no_year_sheet))) = [] \<and>
   raised_v1 (extract_pathways_from_excel_v1 (Some no_year_sheet)) = None"
  by code_simp

section \<open>The round trip (claim C6)\<close>

text \<open>
  The second script on the example sheet, with the two one-entry mappings of the example
  and with its own mappings: exactly the one record for 2020, none for the zero of 2021.
\<close>

lemma second_script_round_trip:
  "sql_statements_v2 (state_v2 (pipeline_v2 [(''Cement'', ''cement'')]
      [(''SBTi 1.5C'', ''SBTi_1.5C'')] (Some example_sheet))) =
     [Insert_stmt example_record_v2 (Some conflict_columns)]"
  "sql_statements_v2 (state_v2 (extract_pathways_from_excel_v2 (Some example_sheet))) =
     [Insert_stmt example_record_v2 (Some conflict_columns)]"
  by code_simp+

text \<open>
  Claim C6: given the header [_, "Scenario", _, "Region", "Flow", "Unit", _, "Sector",
  "2020", "2021"] and the data row [_, "SBTi 1.5C", _, "World", "Emissions", "MtCO2", _,
  "Cement", 12.5, 0], with the mappings {"Cement": "cement"} and {"SBTi 1.5C":
  "SBTi_1.5C"}, the pipeline emits exactly one record, for 2020 with value 12.5, and none
  for the zero of 2021.

  The second script does this (\<open>second_script_round_trip\<close>). The first script emits
  nothing on this sheet, with the mappings of the example as with its own: its scanner
  takes only numeric header cells, the year headers here are strings, and it finds no year
  column. With numeric year headers it emits the one record.
\<close>

theorem first_script_round_trip_emits_nothing:
  "year_columns_v1 example_sheet = [] \<and>
   sql_statements_v1 (state_v1 (pipeline_v1 [(''Cement'', ''cement'')]
      [(''SBTi 1.5C'', ''SBTi_1.5C'')] (Some example_sheet))) = [] \<and>
   sql_statements_v1 (state_v1 (extract_pathways_from_excel_v1 (Some example_sheet))) = [] \<and>
   sql_statements_v1 (state_v1 (extract_pathways_from_excel_v1 (Some numeric_sheet))) =
     [Insert_stmt example_record_v1 None]"
  by code_simp

section \<open>The default region (claim C7)\<close>

text \<open>
  The second script: an empty region cell, \<^verbatim>\<open>None\<close> or the empty string, gives "World",
  in the field and in every statement of the row.
\<close>

lemma region_v2_empty:
  "region_v2 CNone = CStr ''World''" "region_v2 (CStr []) = CStr ''World''"
  "truthy v \<Longrightarrow> region_v2 v = v"
  by (simp_all add: region_v2_def)

lemma row_output_v2_region:
  "Insert_stmt r oc \<in> set (row_output_v2 sm scm ws ycs i) \<Longrightarrow> \<not> truthy (cell_value ws i 4) \<Longrightarrow>
     region r = CStr ''World''"
  by (auto simp: row_output_v2_def row_sqls_def sql_v2_def region_v2_def split: if_splits)

text \<open>
  Claim C7: for every data row whose region cell is empty the region field is the fallback
  "World": the default applies whenever the cell itself is empty, not only when the row is
  too short to hold the region column.

  The second script does this (\<open>region_v2_empty\<close>, \<open>row_output_v2_region\<close>). The first
  script defaults only when the row has fewer than four cells; the row of the example with
  an empty region cell keeps \<^verbatim>\<open>None\<close> as its region and is emitted with it, where the
  second script emits "World".
\<close>

theorem first_script_empty_region_kept:
  "cell_value empty_region_sheet 2 4 = CNone \<and>
   region_v1 (ws_row empty_region_sheet 2) = CNone \<and>
   sql_statements_v1 (state_v1 (extract_pathways_from_excel_v1 (Some empty_region_sheet))) =
     [Insert_stmt (example_record_v1\<lparr>region := CNone\<rparr>) None] \<and>
   sql_statements_v2 (state_v2 (extract_pathways_from_excel_v2 (Some empty_region_sheet_v2))) =
     [Insert_stmt example_record_v2 (Some conflict_columns)]"
  by code_simp

section \<open>The emitted records (claims C8 and C10)\<close>

text \<open>
  Claim C8 as stated: every emitted record has its scenario and its sector in the closed
  canonical sets (the values of the two mappings), a value that is not null, is numeric
  and is not zero, and a year within the scanned range; no record is emitted for a cell
  that is null, not numeric or zero.

  It fails on a boolean cell. The test on a year cell is \<^verbatim>\<open>isinstance(value, (int,
  float))\<close>, which a boolean passes, and nothing in either script tells a boolean from a
  number: for the row of the example with True under 2020 and False under 2021, each
  script emits one record, with the value True, which is not a number.
\<close>

theorem emitted_boolean_value_counterexample:
  "sql_statements_v2 (state_v2 (extract_pathways_from_excel_v2 (Some bool_sheet))) =
     [Insert_stmt (example_record_v2\<lparr>val := CBool True\<rparr>) (Some conflict_columns)] \<and>
   sql_statements_v1 (state_v1 (extract_pathways_from_excel_v1 (Some numeric_bool_sheet))) =
     [Insert_stmt (example_record_v1\<lparr>val := CBool True\<rparr>) None] \<and>
   \<not> spec_numeric (val (example_record_v2\<lparr>val := CBool True\<rparr>)) \<and>
   \<not> spec_numeric (val (example_record_v1\<lparr>val := CBool True\<rparr>))"
  by code_simp

text \<open>
  Claim C8, amended: every emitted record has its scenario and its sector in the closed
  canonical sets (the values of the two mappings); its value is the value of the cell of a
  data row under a scanned year column with the record's year, and it is a non-zero
  integer, a non-zero float or the boolean True (so it is not null, it passes
  \<^verbatim>\<open>isinstance(value, (int, float))\<close>, and it is not zero as a number); its year is
  within 2014 to 2050. No record is emitted for a cell that is null, a string, zero or
  False. This holds for both scripts and any mappings.
\<close>

theorem emitted_record_invariant:
  "(Insert_stmt r oc \<in> set (sql_statements_v2 (state_v2 (pipeline_v2 sm scm (Some ws)))) \<longrightarrow>
      scenario r \<in> set (dict_values scm) \<and> sector r \<in> set (dict_values sm) \<and>
      val r \<noteq> CNone \<and> isinstance_int_float (val r) \<and>
      (\<exists>x. num_value (val r) = Some x \<and> x \<noteq> 0) \<and>
      ((\<exists>n. val r = CInt n \<and> n \<noteq> 0) \<or> (\<exists>x. val r = CFloat x \<and> x \<noteq> 0) \<or>
       val r = CBool True) \<and>
      2014 \<le> year r \<and> year r \<le> 2050 \<and>
      (\<exists>i c. 2 \<le> i \<and> i \<le> max_row ws \<and> (c, year r) \<in> set (year_columns_v2 ws) \<and>
             val r = cell_value ws i c)) \<and>
   (Insert_stmt r' oc' \<in> set (sql_statements_v1 (state_v1 (pipeline_v1 sm' scm' (Some ws')))) \<longrightarrow>
      scenario r' \<in> set (dict_values scm') \<and> sector r' \<in> set (dict_values sm') \<and>
      val r' \<noteq> CNone \<and> isinstance_int_float (val r') \<and>
      (\<exists>x. num_value (val r') = Some x \<and> x \<noteq> 0) \<and>
      ((\<exists>n. val r' = CInt n \<and> n \<noteq> 0) \<or> (\<exists>x. val r' = CFloat x \<and> x \<noteq> 0) \<or>
       val r' = CBool True) \<and>
      2014 \<le> year r' \<and> year r' \<le> 2050 \<and>
      (\<exists>i c. 2 \<le> i \<and> i \<le> max_row ws' \<and> (c, year r') \<in> set (year_columns_v1 ws') \<and>
             val r' = cell_value ws' i (Suc c)))"
proof (rule conjI; rule impI)
  assume "Insert_stmt r oc \<in> set (sql_statements_v2 (state_v2 (pipeline_v2 sm scm (Some ws))))"
  then obtain i where i: "2 \<le> i" "i \<le> max_row ws"
    and m: "Insert_stmt r oc \<in> set (row_output_v2 sm scm ws (year_columns_v2 ws) i)"
    unfolding pipeline_v2_sqls by (auto simp del: upt_Suc)
  from row_output_v2_invariant[OF m] obtain c where
    inv: "scenario r \<in> set (dict_values scm)" "sector r \<in> set (dict_values sm)" "emits (val r)"
      "(c, year r) \<in> set (year_columns_v2 ws)" "val r = cell_value ws i c"
    by blast
  from inv(4) have "2014 \<le> year r \<and> year r \<le> 2050"
    using header_year_v2_range by (auto simp: year_columns_v2_mem)
  with inv i emits_numeric[OF inv(3)] emits_cases[OF inv(3)]
  show "scenario r \<in> set (dict_values scm) \<and> sector r \<in> set (dict_values sm) \<and>
      val r \<noteq> CNone \<and> isinstance_int_float (val r) \<and>
      (\<exists>x. num_value (val r) = Some x \<and> x \<noteq> 0) \<and>
      ((\<exists>n. val r = CInt n \<and> n \<noteq> 0) \<or> (\<exists>x. val r = CFloat x \<and> x \<noteq> 0) \<or>
       val r = CBool True) \<and>
      2014 \<le> year r \<and> year r \<le> 2050 \<and>
      (\<exists>i c. 2 \<le> i \<and> i \<le> max_row ws \<and> (c, year r) \<in> set (year_columns_v2 ws) \<and>
             val r = cell_value ws i c)"
    by blast
next
  assume "Insert_stmt r' oc' \<in> set (sql_statements_v1 (state_v1 (pipeline_v1 sm' scm' (Some ws'))))"
  then obtain i where i: "2 \<le> i" "i \<le> max_row ws'"
    and m: "Insert_stmt r' oc' \<in> set (row_output_v1 sm' scm' ws' (year_columns_v1 ws') i)"
    unfolding pipeline_v1_sqls by (auto simp del: upt_Suc)
  from row_output_v1_invariant[OF m] obtain c where
    inv: "scenario r' \<in> set (dict_values scm')" "sector r' \<in> set (dict_values sm')"
      "emits (val r')" "(c, year r') \<in> set (year_columns_v1 ws')"
      "val r' = cell_value ws' i (Suc c)"
    by blast
  from inv(4) have "2014 \<le> year r' \<and> year r' \<le> 2050"
    using header_year_v1_range by (auto simp: year_columns_v1_mem)
  with inv i emits_numeric[OF inv(3)] emits_cases[OF inv(3)]
  show "scenario r' \<in> set (dict_values scm') \<and> sector r' \<in> set (dict_values sm') \<and>
      val r' \<noteq> CNone \<and> isinstance_int_float (val r') \<and>
      (\<exists>x. num_value (val r') = Some x \<and> x \<noteq> 0) \<and>
      ((\<exists>n. val r' = CInt n \<and> n \<noteq> 0) \<or> (\<exists>x. val r' = CFloat x \<and> x \<noteq> 0) \<or>
       val r' = CBool True) \<and>
      2014 \<le> year r' \<and> year r' \<le> 2050 \<and>
      (\<exists>i c. 2 \<le> i \<and> i \<le> max_row ws' \<and> (c, year r') \<in> set (year_columns_v1 ws') \<and>
             val r' = cell_value ws' i (Suc c))"
    by blast
qed

theorem emitted_record_invariant_witness:
  "Insert_stmt example_record_v2 (Some conflict_columns)
     \<in> set (sql_statements_v2 (state_v2 (pipeline_v2 sector_map_v2 scenario_map_v2 (Some example_sheet)))) \<and>
   scenario example_record_v2 \<in> set (dict_values scenario_map_v2) \<and>
   sector example_record_v2 \<in> set (dict_values sector_map_v2) \<and>
   (\<exists>x. num_value (val example_record_v2) = Some x \<and> x \<noteq> 0) \<and>
   2014 \<le> year example_record_v2 \<and> year example_record_v2 \<le> 2050 \<and>
   Insert_stmt example_record_v1 None
     \<in> set (sql_statements_v1 (state_v1 (pipeline_v1 sector_map_v1 scenario_map_v1 (Some numeric_sheet)))) \<and>
   scenario example_record_v1 \<in> set (dict_values scenario_map_v1) \<and>
   sector example_record_v1 \<in> set (dict_values sector_map_v1) \<and>
   (\<exists>x. num_value (val example_record_v1) = Some x \<and> x \<noteq> 0) \<and>
   2014 \<le> year example_record_v1 \<and> year example_record_v1 \<le> 2050"
proof -
  have h2: "Insert_stmt example_record_v2 (Some conflict_columns)
     \<in> set (sql_statements_v2 (state_v2 (pipeline_v2 sector_map_v2 scenario_map_v2 (Some example_sheet))))"
    by code_simp
  have h1: "Insert_stmt example_record_v1 None
     \<in> set (sql_statements_v1 (state_v1 (pipeline_v1 sector_map_v1 scenario_map_v1 (Some numeric_sheet))))"
    by code_simp
  from h2 h1
    emitted_record_invariant[where r = example_record_v2 and oc = "Some conflict_columns"
      and sm = sector_map_v2 and scm = scenario_map_v2 and ws = example_sheet
      and r' = example_record_v1 and oc' = None
      and sm' = sector_map_v1 and scm' = scenario_map_v1 and ws' = numeric_sheet]
  show ?thesis by blast
qed

text \<open>
  Claim C10: for an accepted row and a year column, a cell holding the boolean True passes
  the test on year cells (\<^verbatim>\<open>bool\<close> is a subclass of \<^verbatim>\<open>int\<close> and True differs from 0)
  and is emitted as a record with the value True; a cell holding False is skipped because
  it equals zero.

  For both scripts: True passes the test and False does not; for a data row that is not
  skipped (and, in the second script, is an Emissions row) with True under a year column,
  the insert of the row's fields, the year of the column and the value True is among the
  emitted statements; and no emitted record has the value False.
\<close>

theorem bool_cells:
  "emits (CBool True) \<and> \<not> emits (CBool False) \<and>
   (2 \<le> i \<and> i \<le> max_row ws \<and> \<not> skip_v2 sm scm (cell_value ws i 8) (cell_value ws i 2) \<and>
    metric_type_v2 (cell_value ws i 5) = CStr ''Emissions'' \<and>
    (c, y) \<in> set (year_columns_v2 ws) \<and> cell_value ws i c = CBool True \<longrightarrow>
      Insert_stmt
        \<lparr>scenario = dict_get scm (cell_value ws i 2) CNone,
         sector = dict_get sm (cell_value ws i 8) CNone,
         region = region_v2 (cell_value ws i 4), metric_type = CStr ''Emissions'',
         unit = cell_value ws i 6, year = y, val = CBool True,
         data_source = ''IEA SBTi Tool v2.4''\<rparr>
        (Some conflict_columns)
      \<in> set (sql_statements_v2 (state_v2 (pipeline_v2 sm scm (Some ws))))) \<and>
   (Insert_stmt r oc \<in> set (sql_statements_v2 (state_v2 (pipeline_v2 sm scm (Some ws)))) \<longrightarrow>
      val r \<noteq> CBool False) \<and>
   (2 \<le> i' \<and> i' \<le> max_row ws' \<and>
    \<not> skip_v1 sm' scm' (field_v1 (ws_row ws' i') 7 CNone) (field_v1 (ws_row ws' i') 1 CNone) \<and>
    (c', y') \<in> set (year_columns_v1 ws') \<and> cell_value ws' i' (Suc c') = CBool True \<longrightarrow>
      Insert_stmt
        \<lparr>scenario = dict_get scm' (field_v1 (ws_row ws' i') 1 CNone) (field_v1 (ws_row ws' i') 1 CNone),
         sector = dict_get sm' (field_v1 (ws_row ws' i') 7 CNone) CNone,
         region = region_v1 (ws_row ws' i'),
         metric_type = metric_type_v1 (field_v1 (ws_row ws' i') 4 CNone),
         unit = field_v1 (ws_row ws' i') 5 CNone, year = y', val = CBool True,
         data_source = ''IEA Database Sheet''\<rparr>
        None
      \<in> set (sql_statements_v1 (state_v1 (pipeline_v1 sm' scm' (Some ws'))))) \<and>
   (Insert_stmt r' oc' \<in> set (sql_statements_v1 (state_v1 (pipeline_v1 sm' scm' (Some ws')))) \<longrightarrow>
      val r' \<noteq> CBool False)"
proof -
  have e: "emits (CBool True)" "\<not> emits (CBool False)"
    by (simp_all add: emits_def)
  have v2: "Insert_stmt
        \<lparr>scenario = dict_get scm (cell_value ws i 2) CNone,
         sector = dict_get sm (cell_value ws i 8) CNone,
         region = region_v2 (cell_value ws i 4), metric_type = CStr ''Emissions'',
         unit = cell_value ws i 6, year = y, val = CBool True,
         data_source = ''IEA SBTi Tool v2.4''\<rparr>
        (Some conflict_columns)
      \<in> set (sql_statements_v2 (state_v2 (pipeline_v2 sm scm (Some ws))))"
    if h: "2 \<le> i" "i \<le> max_row ws" "\<not> skip_v2 sm scm (cell_value ws i 8) (cell_value ws i 2)"
      "metric_type_v2 (cell_value ws i 5) = CStr ''Emissions''"
      "(c, y) \<in> set (year_columns_v2 ws)" "cell_value ws i c = CBool True"
  proof -
    let ?mk = "sql_v2 (dict_get scm (cell_value ws i 2) CNone) (dict_get sm (cell_value ws i 8) CNone)
        (region_v2 (cell_value ws i 4)) (CStr ''Emissions'') (cell_value ws i 6)"
    have "?mk y (cell_value ws i c) \<in> set (row_sqls (cell_value ws i) ?mk (year_columns_v2 ws))"
      using h(5,6) e(1) by (intro row_sqls_mem) simp_all
    then have "?mk y (CBool True) \<in> set (row_output_v2 sm scm ws (year_columns_v2 ws) i)"
      using h(3,4,6) by (simp add: row_output_v2_def)
    moreover have "i \<in> set [2 ..< Suc (max_row ws)]"
      using h(1,2) by (simp del: upt_Suc)
    ultimately have "?mk y (CBool True) \<in> set (sql_statements_v2 (state_v2 (pipeline_v2 sm scm (Some ws))))"
      unfolding pipeline_v2_sqls set_concat set_map by blast
    then show ?thesis by (simp add: sql_v2_def)
  qed
  have v1: "Insert_stmt
        \<lparr>scenario = dict_get scm' (field_v1 (ws_row ws' i') 1 CNone) (field_v1 (ws_row ws' i') 1 CNone),
         sector = dict_get sm' (field_v1 (ws_row ws' i') 7 CNone) CNone,
         region = region_v1 (ws_row ws' i'),
         metric_type = metric_type_v1 (field_v1 (ws_row ws' i') 4 CNone),
         unit = field_v1 (ws_row ws' i') 5 CNone, year = y', val = CBool True,
         data_source = ''IEA Database Sheet''\<rparr>
        None
      \<in> set (sql_statements_v1 (state_v1 (pipeline_v1 sm' scm' (Some ws'))))"
    if h: "2 \<le> i'" "i' \<le> max_row ws'"
      "\<not> skip_v1 sm' scm' (field_v1 (ws_row ws' i') 7 CNone) (field_v1 (ws_row ws' i') 1 CNone)"
      "(c', y') \<in> set (year_columns_v1 ws')" "cell_value ws' i' (Suc c') = CBool True"
  proof -
    let ?row = "ws_row ws' i'"
    let ?mk = "sql_v1 (dict_get scm' (field_v1 ?row 1 CNone) (field_v1 ?row 1 CNone))
        (dict_get sm' (field_v1 ?row 7 CNone) CNone) (region_v1 ?row)
        (metric_type_v1 (field_v1 ?row 4 CNone)) (field_v1 ?row 5 CNone)"
    from h(4) have c: "c' < max_column ws'" by (simp add: year_columns_v1_mem)
    then have cell: "?row ! c' = CBool True" using h(5) by (simp add: ws_row_nth)
    have "(c', y') \<in> set (filter (\<lambda>cy. fst cy < length ?row) (year_columns_v1 ws'))"
      using h(4) c by (simp add: length_ws_row)
    then have "?mk y' (?row ! c') \<in> set (row_sqls (\<lambda>c. ?row ! c) ?mk
        (filter (\<lambda>cy. fst cy < length ?row) (year_columns_v1 ws')))"
      using cell e(1) by (intro row_sqls_mem) simp_all
    then have "?mk y' (CBool True) \<in> set (row_output_v1 sm' scm' ws' (year_columns_v1 ws') i')"
      using h(3) cell by (simp add: row_output_v1_def Let_def)
    moreover have "i' \<in> set [2 ..< Suc (max_row ws')]"
      using h(1,2) by (simp del: upt_Suc)
    ultimately have "?mk y' (CBool True) \<in> set (sql_statements_v1 (state_v1 (pipeline_v1 sm' scm' (Some ws'))))"
      unfolding pipeline_v1_sqls set_concat set_map by blast
    then show ?thesis by (simp add: sql_v1_def)
  qed
  have n2: "val r \<noteq> CBool False"
    if "Insert_stmt r oc \<in> set (sql_statements_v2 (state_v2 (pipeline_v2 sm scm (Some ws))))"
    using pipeline_v2_emits[OF that] e(2) by auto
  have n1: "val r' \<noteq> CBool False"
    if "Insert_stmt r' oc' \<in> set (sql_statements_v1 (state_v1 (pipeline_v1 sm' scm' (Some ws'))))"
    using pipeline_v1_emits[OF that] e(2) by auto
  from e v2 v1 n2 n1 show ?thesis by blast
qed

theorem bool_cells_witness:
  "cell_value bool_sheet 2 9 = CBool True \<and> cell_value bool_sheet 2 10 = CBool False \<and>
   Insert_stmt
     \<lparr>scenario = CStr ''SBTi_1.5C'', sector = CStr ''cement'', region = CStr ''World'',
      metric_type = CStr ''Emissions'', unit = CStr ''MtCO2'', year = 2020, val = CBool True,
      data_source = ''IEA SBTi Tool v2.4''\<rparr>
     (Some conflict_columns)
     \<in> set (sql_statements_v2 (state_v2 (pipeline_v2 sector_map_v2 scenario_map_v2 (Some bool_sheet)))) \<and>
   length (sql_statements_v2 (state_v2 (pipeline_v2 sector_map_v2 scenario_map_v2 (Some bool_sheet)))) = 1 \<and>
   cell_value numeric_bool_sheet 2 9 = CBool True \<and> cell_value numeric_bool_sheet 2 10 = CBool False \<and>
   Insert_stmt
     \<lparr>scenario = CStr ''SBTi_1.5C'', sector = CStr ''cement'', region = CStr ''World'',
      metric_type = CStr ''Emissions'', unit = CStr ''MtCO2'', year = 2020, val = CBool True,
      data_source = ''IEA Database Sheet''\<rparr>
     None
     \<in> set (sql_statements_v1 (state_v1 (pipeline_v1 sector_map_v1 scenario_map_v1
          (Some numeric_bool_sheet)))) \<and>
   length (sql_statements_v1 (state_v1 (pipeline_v1 sector_map_v1 scenario_map_v1
          (Some numeric_bool_sheet)))) = 1"
proof -
  have cells: "cell_value bool_sheet 2 9 = CBool True" "cell_value bool_sheet 2 10 = CBool False"
    "cell_value numeric_bool_sheet 2 9 = CBool True" "cell_value numeric_bool_sheet 2 10 = CBool False"
    by code_simp+
  have len: "length (sql_statements_v2 (state_v2 (pipeline_v2 sector_map_v2 scenario_map_v2
        (Some bool_sheet)))) = 1"
    "length (sql_statements_v1 (state_v1 (pipeline_v1 sector_map_v1 scenario_map_v1
        (Some numeric_bool_sheet)))) = 1"
    by code_simp+
  have h2: "2 \<le> (2::nat) \<and> 2 \<le> max_row bool_sheet \<and>
      \<not> skip_v2 sector_map_v2 scenario_map_v2 (cell_value bool_sheet 2 8) (cell_value bool_sheet 2 2) \<and>
      metric_type_v2 (cell_value bool_sheet 2 5) = CStr ''Emissions'' \<and>
      (9, 2020) \<in> set (year_columns_v2 bool_sheet) \<and> cell_value bool_sheet 2 9 = CBool True"
    by code_simp
  have h1: "2 \<le> (2::nat) \<and> 2 \<le> max_row numeric_bool_sheet \<and>
      \<not> skip_v1 sector_map_v1 scenario_map_v1 (field_v1 (ws_row numeric_bool_sheet 2) 7 CNone)
          (field_v1 (ws_row numeric_bool_sheet 2) 1 CNone) \<and>
      (8, 2020) \<in> set (year_columns_v1 numeric_bool_sheet) \<and>
      cell_value numeric_bool_sheet 2 (Suc 8) = CBool True"
    by code_simp
  have f2: "dict_get scenario_map_v2 (cell_value bool_sheet 2 2) CNone = CStr ''SBTi_1.5C''"
    "dict_get sector_map_v2 (cell_value bool_sheet 2 8) CNone = CStr ''cement''"
    "region_v2 (cell_value bool_sheet 2 4) = CStr ''World''"
    "cell_value bool_sheet 2 6 = CStr ''MtCO2''"
    by code_simp+
  have f1: "dict_get scenario_map_v1 (field_v1 (ws_row numeric_bool_sheet 2) 1 CNone)
        (field_v1 (ws_row numeric_bool_sheet 2) 1 CNone) = CStr ''SBTi_1.5C''"
    "dict_get sector_map_v1 (field_v1 (ws_row numeric_bool_sheet 2) 7 CNone) CNone = CStr ''cement''"
    "region_v1 (ws_row numeric_bool_sheet 2) = CStr ''World''"
    "metric_type_v1 (field_v1 (ws_row numeric_bool_sheet 2) 4 CNone) = CStr ''Emissions''"
    "field_v1 (ws_row numeric_bool_sheet 2) 5 CNone = CStr ''MtCO2''"
    by code_simp+
  from bool_cells[where ws = bool_sheet and i = 2 and sm = sector_map_v2 and scm = scenario_map_v2
      and c = 9 and y = 2020 and ws' = numeric_bool_sheet and i' = 2 and sm' = sector_map_v1
      and scm' = scenario_map_v1 and c' = 8 and y' = 2020] h2 h1
  have "Insert_stmt
        \<lparr>scenario = dict_get scenario_map_v2 (cell_value bool_sheet 2 2) CNone,
         sector = dict_get sector_map_v2 (cell_value bool_sheet 2 8) CNone,
         region = region_v2 (cell_value bool_sheet 2 4), metric_type = CStr ''Emissions'',
         unit = cell_value bool_sheet 2 6, year = 2020, val = CBool True,
         data_source = ''IEA SBTi Tool v2.4''\<rparr>
        (Some conflict_columns)
      \<in> set (sql_statements_v2 (state_v2 (pipeline_v2 sector_map_v2 scenario_map_v2 (Some bool_sheet))))"
    and "Insert_stmt
        \<lparr>scenario = dict_get scenario_map_v1 (field_v1 (ws_row numeric_bool_sheet 2) 1 CNone)
           (field_v1 (ws_row numeric_bool_sheet 2) 1 CNone),
         sector = dict_get sector_map_v1 (field_v1 (ws_row numeric_bool_sheet 2) 7 CNone) CNone,
         region = region_v1 (ws_row numeric_bool_sheet 2),
         metric_type = metric_type_v1 (field_v1 (ws_row numeric_bool_sheet 2) 4 CNone),
         unit = field_v1 (ws_row numeric_bool_sheet 2) 5 CNone, year = 2020, val = CBool True,
         data_source = ''IEA Database Sheet''\<rparr>
        None
      \<in> set (sql_statements_v1 (state_v1 (pipeline_v1 sector_map_v1 scenario_map_v1
            (Some numeric_bool_sheet))))"
    by blast+
  then show ?thesis
    using cells len unfolding f2 f1 by blast
qed

end
